theory Spec2Isabelle
  imports Main "HOL-Library.Multiset"
begin

section \<open>Data model (src/db/tables.ts)\<close>

text \<open>
  The two tables of \<^verbatim>\<open>src/db/tables.ts\<close>. A row is a record; Isabelle record fields
  share one name space, so the columns of a script row carry the prefix \<open>s_\<close> and
  those of a section row the prefix \<open>x_\<close>. An optional column is an \<open>option\<close>
  (\<open>None\<close> is SQL NULL and JavaScript \<open>undefined\<close>). A \<open>Date\<close> is its number of
  milliseconds. Numbers are integers: every number the actions write has passed
  \<^verbatim>\<open>z.number().int()\<close>, which sets no upper bound.
\<close>

type_synonym date = int

record MeditationScript =
  s_id :: string
  s_userId :: string
  s_title :: string
  s_description :: "string option"
  s_meditationType :: "string option"
  s_focusArea :: "string option"
  s_difficulty :: "string option"
  s_language :: "string option"
  s_targetDurationMinutes :: "int option"
  s_fullScript :: "string option"
  s_notes :: "string option"
  s_isFavorite :: bool
  s_createdAt :: date
  s_updatedAt :: date

record MeditationScriptSection =
  x_id :: string
  x_scriptId :: string
  x_orderIndex :: int
  x_sectionType :: "string option"
  x_title :: "string option"
  x_body :: string
  x_suggestedDurationMinutes :: "int option"
  x_createdAt :: date

text \<open>
  The store is the two tables, each a list of rows in store-native order (the
  order in which \<^verbatim>\<open>db.select()\<close> returns them; inserts append).
\<close>

record db =
  MeditationScripts :: "MeditationScript list"
  MeditationScriptSections :: "MeditationScriptSection list"

text \<open>
  The errors an action ends with: an \<^verbatim>\<open>ActionError\<close> thrown by the handler (its
  code and message), the input error \<^verbatim>\<open>defineAction\<close> raises when the schema
  rejects the payload (code BAD_REQUEST, the spec's InvalidInput), and an uncaught
  exception of the store (an insert that violates a primary key, a select that
  returns an integer the client cannot decode), which reaches the caller as
  INTERNAL_SERVER_ERROR.
\<close>

datatype code = UNAUTHORIZED | NOT_FOUND | FORBIDDEN

datatype error = ActionError code string | ActionInputError | StoreError

text \<open>
  The result of a call: what the caller receives (the error, or the \<open>data\<close> of the
  success payload) and the store the call leaves behind.
\<close>

type_synonym 'a outcome = "(error + 'a) \<times> db"

record user =
  user_id :: string

record locals =
  locals_user :: "user option"

record ActionAPIContext =
  ctx_locals :: "locals option"

section \<open>The store's operations (astro:db)\<close>

text \<open>
  \<^verbatim>\<open>db.insert(T).values(row)\<close>: the column \<open>id\<close> is declared \<open>primaryKey\<close>, so
  the store refuses a row whose id is already in the table; otherwise the row is added.
\<close>

definition insert_script :: "MeditationScript \<Rightarrow> db \<Rightarrow> db option" where
  "insert_script row st =
     (if s_id row \<in> set (map s_id (MeditationScripts st)) then None
      else Some (st\<lparr>MeditationScripts := MeditationScripts st @ [row]\<rparr>))"

definition insert_section :: "MeditationScriptSection \<Rightarrow> db \<Rightarrow> db option" where
  "insert_section row st =
     (if x_id row \<in> set (map x_id (MeditationScriptSections st)) then None
      else Some (st\<lparr>MeditationScriptSections := MeditationScriptSections st @ [row]\<rparr>))"

text \<open>
  The object handed to \<^verbatim>\<open>.set(updates)\<close>: a key that was assigned is \<open>Some\<close>, a key
  that was never assigned is \<open>None\<close> and leaves its column alone.
\<close>

record script_updates =
  us_title :: "string option"
  us_description :: "string option"
  us_meditationType :: "string option"
  us_focusArea :: "string option"
  us_difficulty :: "string option"
  us_language :: "string option"
  us_targetDurationMinutes :: "int option"
  us_fullScript :: "string option"
  us_notes :: "string option"
  us_isFavorite :: "bool option"
  us_updatedAt :: "date option"

record section_updates =
  ux_orderIndex :: "int option"
  ux_sectionType :: "string option"
  ux_title :: "string option"
  ux_body :: "string option"
  ux_suggestedDurationMinutes :: "int option"

definition set_req :: "'a option \<Rightarrow> 'a \<Rightarrow> 'a" where
  "set_req u old = (case u of None \<Rightarrow> old | Some v \<Rightarrow> v)"

definition set_opt :: "'a option \<Rightarrow> 'a option \<Rightarrow> 'a option" where
  "set_opt u old = (case u of None \<Rightarrow> old | Some v \<Rightarrow> Some v)"

definition set_script :: "script_updates \<Rightarrow> MeditationScript \<Rightarrow> MeditationScript" where
  "set_script u r =
     r\<lparr>s_title := set_req (us_title u) (s_title r),
       s_description := set_opt (us_description u) (s_description r),
       s_meditationType := set_opt (us_meditationType u) (s_meditationType r),
       s_focusArea := set_opt (us_focusArea u) (s_focusArea r),
       s_difficulty := set_opt (us_difficulty u) (s_difficulty r),
       s_language := set_opt (us_language u) (s_language r),
       s_targetDurationMinutes :=
         set_opt (us_targetDurationMinutes u) (s_targetDurationMinutes r),
       s_fullScript := set_opt (us_fullScript u) (s_fullScript r),
       s_notes := set_opt (us_notes u) (s_notes r),
       s_isFavorite := set_req (us_isFavorite u) (s_isFavorite r),
       s_updatedAt := set_req (us_updatedAt u) (s_updatedAt r)\<rparr>"

definition set_section ::
  "section_updates \<Rightarrow> MeditationScriptSection \<Rightarrow> MeditationScriptSection" where
  "set_section u r =
     r\<lparr>x_orderIndex := set_req (ux_orderIndex u) (x_orderIndex r),
       x_sectionType := set_opt (ux_sectionType u) (x_sectionType r),
       x_title := set_opt (ux_title u) (x_title r),
       x_body := set_req (ux_body u) (x_body r),
       x_suggestedDurationMinutes :=
         set_opt (ux_suggestedDurationMinutes u) (x_suggestedDurationMinutes r)\<rparr>"

text \<open>\<^verbatim>\<open>db.update(T).set(updates).where(cond)\<close>: every row that satisfies the
  condition is rewritten in place, every other row is left as it is.\<close>

definition update_scripts ::
  "script_updates \<Rightarrow> (MeditationScript \<Rightarrow> bool) \<Rightarrow> db \<Rightarrow> db" where
  "update_scripts u cond st =
     st\<lparr>MeditationScripts :=
          map (\<lambda>r. if cond r then set_script u r else r) (MeditationScripts st)\<rparr>"

definition update_sections ::
  "section_updates \<Rightarrow> (MeditationScriptSection \<Rightarrow> bool) \<Rightarrow> db \<Rightarrow> db" where
  "update_sections u cond st =
     st\<lparr>MeditationScriptSections :=
          map (\<lambda>r. if cond r then set_section u r else r) (MeditationScriptSections st)\<rparr>"

text \<open>\<^verbatim>\<open>db.delete(T).where(cond)\<close>: the rows that satisfy the condition go.\<close>

definition delete_sections :: "(MeditationScriptSection \<Rightarrow> bool) \<Rightarrow> db \<Rightarrow> db" where
  "delete_sections cond st =
     st\<lparr>MeditationScriptSections :=
          filter (\<lambda>r. \<not> cond r) (MeditationScriptSections st)\<rparr>"

text \<open>
  \<^verbatim>\<open>db.select()\<close> decodes every integer of the rows it returns into a JavaScript
  number, and throws ("Received integer which cannot be safely represented as a
  JavaScript number") when one lies outside \<^verbatim>\<open>Number.MIN_SAFE_INTEGER\<close> ..
  \<^verbatim>\<open>Number.MAX_SAFE_INTEGER\<close>, that is when its absolute value is \<open>2^53\<close> or more.
  The integer column of a script row that a payload can set is
  \<open>targetDurationMinutes\<close>.
\<close>

definition safe_integer :: "int \<Rightarrow> bool" where
  "safe_integer n = (- 9007199254740991 \<le> n \<and> n \<le> 9007199254740991)"

definition row_decodes :: "MeditationScript \<Rightarrow> bool" where
  "row_decodes r =
     (case s_targetDurationMinutes r of None \<Rightarrow> True | Some n \<Rightarrow> safe_integer n)"

section \<open>JavaScript library functions the handlers call\<close>


text \<open>
  \<^verbatim>\<open>Array.prototype.sort(cmp)\<close>: ECMAScript requires the sort to be stable; it is
  modelled by the insertion sort that puts an element before the first one it does
  not compare greater than.
\<close>

fun js_insert :: "('a \<Rightarrow> 'a \<Rightarrow> int) \<Rightarrow> 'a \<Rightarrow> 'a list \<Rightarrow> 'a list" where
  "js_insert cmp x [] = [x]"
| "js_insert cmp x (y # ys) =
     (if cmp x y \<le> 0 then x # y # ys else y # js_insert cmp x ys)"

definition js_sort :: "('a \<Rightarrow> 'a \<Rightarrow> int) \<Rightarrow> 'a list \<Rightarrow> 'a list" where
  "js_sort cmp xs = foldr (js_insert cmp) xs []"

text \<open>The truth value JavaScript gives an optional string in a condition:
  \<open>undefined\<close> and the empty string are falsy.\<close>

definition truthy :: "string option \<Rightarrow> bool" where
  "truthy v = (case v of None \<Rightarrow> False | Some s \<Rightarrow> s \<noteq> [])"

section \<open>Helpers of the action file (src/unnamed/part_000)\<close>

definition requireUser :: "ActionAPIContext \<Rightarrow> error + user" where
  "requireUser ctx =
     (case ctx_locals ctx of
        None \<Rightarrow> Inl (ActionError UNAUTHORIZED ''You must be signed in to perform this action.'')
      | Some l \<Rightarrow>
          (case locals_user l of
             None \<Rightarrow>
               Inl (ActionError UNAUTHORIZED ''You must be signed in to perform this action.'')
           | Some u \<Rightarrow> Inr u))"

text \<open>The select of \<open>getOwnedScript\<close> returns the rows with the id and the owner;
  it throws when one of them does not decode, before the handler sees any row.\<close>

definition getOwnedScript :: "string \<Rightarrow> string \<Rightarrow> db \<Rightarrow> error + MeditationScript" where
  "getOwnedScript scriptId userId st =
     (let rows = filter (\<lambda>r. s_id r = scriptId \<and> s_userId r = userId) (MeditationScripts st)
      in if list_all row_decodes rows then
           (case rows of
              [] \<Rightarrow> Inl (ActionError NOT_FOUND ''Meditation script not found.'')
            | script # _ \<Rightarrow> Inr script)
         else Inl StoreError)"

section \<open>The actions (src/unnamed/part_000)\<close>

text \<open>
  An action is \<^verbatim>\<open>defineAction({input, handler})\<close>: the payload is parsed against the
  schema first, and the handler runs on the parsed input only when the schema accepts
  it. The handler's clock (\<^verbatim>\<open>new Date()\<close>) and \<^verbatim>\<open>crypto.randomUUID()\<close> are
  arguments of the model.
\<close>

definition positive_opt :: "int option \<Rightarrow> bool" where
  "positive_opt v = (case v of None \<Rightarrow> True | Some n \<Rightarrow> 0 < n)"

subsection \<open>createMeditationScript\<close>

record create_input =
  c_title :: string
  c_description :: "string option"
  c_meditationType :: "string option"
  c_focusArea :: "string option"
  c_difficulty :: "string option"
  c_language :: "string option"
  c_targetDurationMinutes :: "int option"
  c_fullScript :: "string option"
  c_notes :: "string option"
  c_isFavorite :: "bool option"

definition create_schema :: "create_input \<Rightarrow> bool" where
  "create_schema inp = (c_title inp \<noteq> [] \<and> positive_opt (c_targetDurationMinutes inp))"

definition createMeditationScript_handler ::
  "create_input \<Rightarrow> ActionAPIContext \<Rightarrow> date \<Rightarrow> string \<Rightarrow> db \<Rightarrow> string outcome" where
  "createMeditationScript_handler inp ctx now scriptId st =
     (case requireUser ctx of
        Inl e \<Rightarrow> (Inl e, st)
      | Inr u \<Rightarrow>
          (case insert_script
                  \<lparr>s_id = scriptId,
                   s_userId = user_id u,
                   s_title = c_title inp,
                   s_description = c_description inp,
                   s_meditationType = c_meditationType inp,
                   s_focusArea = c_focusArea inp,
                   s_difficulty = c_difficulty inp,
                   s_language = c_language inp,
                   s_targetDurationMinutes = c_targetDurationMinutes inp,
                   s_fullScript = c_fullScript inp,
                   s_notes = c_notes inp,
                   s_isFavorite = (case c_isFavorite inp of None \<Rightarrow> False | Some b \<Rightarrow> b),
                   s_createdAt = now,
                   s_updatedAt = now\<rparr> st of
             None \<Rightarrow> (Inl StoreError, st)
           | Some st' \<Rightarrow> (Inr scriptId, st')))"

definition createMeditationScript ::
  "create_input \<Rightarrow> ActionAPIContext \<Rightarrow> date \<Rightarrow> string \<Rightarrow> db \<Rightarrow> string outcome" where
  "createMeditationScript inp ctx now scriptId st =
     (if create_schema inp then createMeditationScript_handler inp ctx now scriptId st
      else (Inl ActionInputError, st))"

subsection \<open>updateMeditationScript\<close>

record update_input =
  u_id :: string
  u_title :: "string option"
  u_description :: "string option"
  u_meditationType :: "string option"
  u_focusArea :: "string option"
  u_difficulty :: "string option"
  u_language :: "string option"
  u_targetDurationMinutes :: "int option"
  u_fullScript :: "string option"
  u_notes :: "string option"
  u_isFavorite :: "bool option"

text \<open>The \<^verbatim>\<open>.refine\<close> of the schema: some entry other than \<open>id\<close> is defined.\<close>

definition update_refine :: "update_input \<Rightarrow> bool" where
  "update_refine inp =
     (u_title inp \<noteq> None \<or> u_description inp \<noteq> None \<or> u_meditationType inp \<noteq> None \<or>
      u_focusArea inp \<noteq> None \<or> u_difficulty inp \<noteq> None \<or> u_language inp \<noteq> None \<or>
      u_targetDurationMinutes inp \<noteq> None \<or> u_fullScript inp \<noteq> None \<or>
      u_notes inp \<noteq> None \<or> u_isFavorite inp \<noteq> None)"

definition update_schema :: "update_input \<Rightarrow> bool" where
  "update_schema inp =
     ((case u_title inp of None \<Rightarrow> True | Some t \<Rightarrow> t \<noteq> []) \<and>
      positive_opt (u_targetDurationMinutes inp) \<and> update_refine inp)"

definition updateMeditationScript_handler ::
  "update_input \<Rightarrow> ActionAPIContext \<Rightarrow> date \<Rightarrow> db \<Rightarrow> string outcome" where
  "updateMeditationScript_handler inp ctx now st =
     (case requireUser ctx of
        Inl e \<Rightarrow> (Inl e, st)
      | Inr u \<Rightarrow>
          (case getOwnedScript (u_id inp) (user_id u) st of
             Inl e \<Rightarrow> (Inl e, st)
           | Inr _ \<Rightarrow>
               (let updates =
                      \<lparr>us_title = u_title inp,
                       us_description = u_description inp,
                       us_meditationType = u_meditationType inp,
                       us_focusArea = u_focusArea inp,
                       us_difficulty = u_difficulty inp,
                       us_language = u_language inp,
                       us_targetDurationMinutes = u_targetDurationMinutes inp,
                       us_fullScript = u_fullScript inp,
                       us_notes = u_notes inp,
                       us_isFavorite = u_isFavorite inp,
                       us_updatedAt = Some now\<rparr>
                in (Inr (u_id inp),
                    update_scripts updates
                      (\<lambda>r. s_id r = u_id inp \<and> s_userId r = user_id u) st))))"

definition updateMeditationScript ::
  "update_input \<Rightarrow> ActionAPIContext \<Rightarrow> date \<Rightarrow> db \<Rightarrow> string outcome" where
  "updateMeditationScript inp ctx now st =
     (if update_schema inp then updateMeditationScript_handler inp ctx now st
      else (Inl ActionInputError, st))"

subsection \<open>listMeditationScripts\<close>








subsection \<open>getMeditationScriptWithSections\<close>

text \<open>The schema is \<^verbatim>\<open>{id: z.string()}\<close>: every string passes.\<close>

definition getMeditationScriptWithSections ::
  "string \<Rightarrow> ActionAPIContext \<Rightarrow> db
     \<Rightarrow> (MeditationScript \<times> MeditationScriptSection list) outcome" where
  "getMeditationScriptWithSections input_id ctx st =
     (case requireUser ctx of
        Inl e \<Rightarrow> (Inl e, st)
      | Inr u \<Rightarrow>
          (case getOwnedScript input_id (user_id u) st of
             Inl e \<Rightarrow> (Inl e, st)
           | Inr script \<Rightarrow>
               (let sections =
                      filter (\<lambda>r. x_scriptId r = s_id script) (MeditationScriptSections st)
                in (Inr (script, js_sort (\<lambda>a b. x_orderIndex a - x_orderIndex b) sections),
                    st))))"

subsection \<open>upsertMeditationScriptSection\<close>

record upsert_input =
  p_id :: "string option"
  p_scriptId :: string
  p_orderIndex :: int
  p_sectionType :: "string option"
  p_title :: "string option"
  p_body :: string
  p_suggestedDurationMinutes :: "int option"

text \<open>The handler tests \<^verbatim>\<open>if (input.id)\<close>: inside that branch the id is a
  non-empty string, which \<open>the\<close> reads; an id that is missing or empty goes to the
  insert below the branch.\<close>

definition upsert_schema :: "upsert_input \<Rightarrow> bool" where
  "upsert_schema inp =
     (0 < p_orderIndex inp \<and> p_body inp \<noteq> [] \<and>
      positive_opt (p_suggestedDurationMinutes inp))"

definition upsertMeditationScriptSection_handler ::
  "upsert_input \<Rightarrow> ActionAPIContext \<Rightarrow> date \<Rightarrow> string \<Rightarrow> db \<Rightarrow> string outcome" where
  "upsertMeditationScriptSection_handler inp ctx now sectionId st =
     (case requireUser ctx of
        Inl e \<Rightarrow> (Inl e, st)
      | Inr u \<Rightarrow>
          (case getOwnedScript (p_scriptId inp) (user_id u) st of
             Inl e \<Rightarrow> (Inl e, st)
           | Inr script \<Rightarrow>
               (if truthy (p_id inp) then
                  (case filter (\<lambda>r. Some (x_id r) = p_id inp) (MeditationScriptSections st) of
                     [] \<Rightarrow> (Inl (ActionError NOT_FOUND ''Section not found.''), st)
                   | existingSection # _ \<Rightarrow>
                       (if x_scriptId existingSection \<noteq> s_id script then
                          (Inl (ActionError FORBIDDEN
                                 ''You cannot modify sections for another user's script.''), st)
                        else
                          (let updates =
                                 \<lparr>ux_orderIndex = Some (p_orderIndex inp),
                                  ux_sectionType = p_sectionType inp,
                                  ux_title = p_title inp,
                                  ux_body = Some (p_body inp),
                                  ux_suggestedDurationMinutes =
                                    p_suggestedDurationMinutes inp\<rparr>
                           in (Inr (the (p_id inp)),
                               update_sections updates
                                 (\<lambda>r. Some (x_id r) = p_id inp) st))))
                else
                  (case insert_section
                          \<lparr>x_id = sectionId,
                           x_scriptId = s_id script,
                           x_orderIndex = p_orderIndex inp,
                           x_sectionType = p_sectionType inp,
                           x_title = p_title inp,
                           x_body = p_body inp,
                           x_suggestedDurationMinutes = p_suggestedDurationMinutes inp,
                           x_createdAt = now\<rparr> st of
                     None \<Rightarrow> (Inl StoreError, st)
                   | Some st' \<Rightarrow> (Inr sectionId, st')))))"

definition upsertMeditationScriptSection ::
  "upsert_input \<Rightarrow> ActionAPIContext \<Rightarrow> date \<Rightarrow> string \<Rightarrow> db \<Rightarrow> string outcome" where
  "upsertMeditationScriptSection inp ctx now sectionId st =
     (if upsert_schema inp then upsertMeditationScriptSection_handler inp ctx now sectionId st
      else (Inl ActionInputError, st))"

subsection \<open>deleteMeditationScriptSection\<close>

definition deleteMeditationScriptSection ::
  "string \<Rightarrow> ActionAPIContext \<Rightarrow> db \<Rightarrow> string outcome" where
  "deleteMeditationScriptSection input_id ctx st =
     (case requireUser ctx of
        Inl e \<Rightarrow> (Inl e, st)
      | Inr u \<Rightarrow>
          (case filter (\<lambda>r. x_id r = input_id) (MeditationScriptSections st) of
             [] \<Rightarrow> (Inl (ActionError NOT_FOUND ''Section not found.''), st)
           | section # _ \<Rightarrow>
               (case getOwnedScript (x_scriptId section) (user_id u) st of
                  Inl e \<Rightarrow> (Inl e, st)
                | Inr _ \<Rightarrow>
                    (Inr input_id, delete_sections (\<lambda>r. x_id r = input_id) st))))"

section \<open>Notions the properties are stated with\<close>

text \<open>The caller \<open>uid\<close> owns a script with id \<open>sid\<close>.\<close>

definition owns :: "db \<Rightarrow> string \<Rightarrow> string \<Rightarrow> bool" where
  "owns st uid sid = list_ex (\<lambda>r. s_id r = sid \<and> s_userId r = uid) (MeditationScripts st)"



text \<open>
  The constraints \<^verbatim>\<open>src/db/tables.ts\<close> declares: \<open>id\<close> is the primary key of both
  tables, and \<open>scriptId\<close> references the id of a script. Every action keeps them
  (lemmas \<open>*_primary_keys\<close> and \<open>*_references\<close> below), so they hold in every
  store the actions can reach from the empty one.
\<close>

definition primary_keys_hold :: "db \<Rightarrow> bool" where
  "primary_keys_hold st =
     (distinct (map s_id (MeditationScripts st)) \<and>
      distinct (map x_id (MeditationScriptSections st)))"

definition references_hold :: "db \<Rightarrow> bool" where
  "references_hold st =
     list_all (\<lambda>x. x_scriptId x \<in> set (map s_id (MeditationScripts st)))
       (MeditationScriptSections st)"





section \<open>Example data\<close>

definition signed_in :: "string \<Rightarrow> ActionAPIContext" where
  "signed_in uid = \<lparr>ctx_locals = Some \<lparr>locals_user = Some \<lparr>user_id = uid\<rparr>\<rparr>\<rparr>"

definition script_S1 :: MeditationScript where
  "script_S1 =
     \<lparr>s_id = ''S1'', s_userId = ''alice'', s_title = ''Morning Calm'',
      s_description = None, s_meditationType = Some ''mindfulness'',
      s_focusArea = Some ''stress'', s_difficulty = None, s_language = Some ''en'',
      s_targetDurationMinutes = Some 5, s_fullScript = None, s_notes = None,
      s_isFavorite = False, s_createdAt = 100, s_updatedAt = 100\<rparr>"

definition script_S2 :: MeditationScript where
  "script_S2 =
     \<lparr>s_id = ''S2'', s_userId = ''alice'', s_title = ''Deep Sleep'',
      s_description = Some ''for the night'', s_meditationType = None,
      s_focusArea = Some ''sleep'', s_difficulty = None, s_language = None,
      s_targetDurationMinutes = None, s_fullScript = None, s_notes = None,
      s_isFavorite = True, s_createdAt = 200, s_updatedAt = 250\<rparr>"

definition script_S3 :: MeditationScript where
  "script_S3 =
     \<lparr>s_id = ''S3'', s_userId = ''bob'', s_title = ''Gratitude'',
      s_description = None, s_meditationType = None,
      s_focusArea = Some ''stress'', s_difficulty = None, s_language = None,
      s_targetDurationMinutes = None, s_fullScript = None, s_notes = None,
      s_isFavorite = False, s_createdAt = 300, s_updatedAt = 300\<rparr>"

definition section_of :: "string \<Rightarrow> string \<Rightarrow> int \<Rightarrow> string \<Rightarrow> MeditationScriptSection" where
  "section_of i sid k b =
     \<lparr>x_id = i, x_scriptId = sid, x_orderIndex = k, x_sectionType = None,
      x_title = Some ''part'', x_body = b, x_suggestedDurationMinutes = None,
      x_createdAt = 400\<rparr>"

definition own_rows :: "MeditationScriptSection list" where
  "own_rows =
     [section_of ''T1'' ''S1'' 3 ''Open your eyes.'',
      section_of ''T2'' ''S1'' 1 ''Breathe in.'',
      section_of ''T3'' ''S1'' 2 ''Breathe out.'',
      section_of ''T4'' ''S1'' 1 ''Relax.'']"

definition store_small :: db where
  "store_small =
     \<lparr>MeditationScripts = [script_S1, script_S2, script_S3],
      MeditationScriptSections = own_rows\<rparr>"

definition store_full :: db where
  "store_full =
     \<lparr>MeditationScripts = [script_S1, script_S2, script_S3],
      MeditationScriptSections = own_rows @ [section_of ''T9'' ''S3'' 1 ''Give thanks.'']\<rparr>"

text \<open>A script of alice whose \<open>targetDurationMinutes\<close> is \<open>2^53\<close>, a value
  \<^verbatim>\<open>z.number().int().positive()\<close> accepts, and a store that holds it with one
  section.\<close>

definition script_S5 :: MeditationScript where
  "script_S5 =
     \<lparr>s_id = ''S5'', s_userId = ''alice'', s_title = ''Long Sit'',
      s_description = None, s_meditationType = None,
      s_focusArea = None, s_difficulty = None, s_language = None,
      s_targetDurationMinutes = Some 9007199254740992, s_fullScript = None,
      s_notes = None, s_isFavorite = False, s_createdAt = 600, s_updatedAt = 600\<rparr>"

definition store_long :: db where
  "store_long =
     \<lparr>MeditationScripts = [script_S1, script_S5],
      MeditationScriptSections =
        [section_of ''T1'' ''S1'' 3 ''Open your eyes.'', section_of ''T6'' ''S5'' 1 ''Count.'']\<rparr>"

section \<open>Facts about the helpers\<close>

lemma find_filter_case:
  "find P xs = (case filter P xs of [] \<Rightarrow> None | x # _ \<Rightarrow> Some x)"
  by (induction xs) auto

lemma filter_Nil_find: "filter P xs = [] \<longleftrightarrow> find P xs = None"
  by (simp add: find_filter_case split: list.splits)

lemma filter_Cons_find: "filter P xs = x # ys \<Longrightarrow> find P xs = Some x"
  by (simp add: find_filter_case)


lemma requireUser_signed_in: "requireUser (signed_in uid) = Inr \<lparr>user_id = uid\<rparr>"
  by (simp add: requireUser_def signed_in_def)

lemma owns_iff:
  "owns st uid sid \<longleftrightarrow> (\<exists>r \<in> set (MeditationScripts st). s_id r = sid \<and> s_userId r = uid)"
  by (simp add: owns_def list_ex_iff)


lemma getOwnedScript_Inr:
  assumes "getOwnedScript sid uid st = Inr sc"
  shows "sc \<in> set (MeditationScripts st) \<and> s_id sc = sid \<and> s_userId sc = uid"
proof -
  from assms obtain rest where
    f: "filter (\<lambda>r. s_id r = sid \<and> s_userId r = uid) (MeditationScripts st) = sc # rest"
    by (auto simp: getOwnedScript_def Let_def split: if_splits list.splits)
  have "sc \<in> set (filter (\<lambda>r. s_id r = sid \<and> s_userId r = uid) (MeditationScripts st))"
    by (simp add: f)
  then show ?thesis by simp
qed




lemma getOwnedScript_owns:
  "getOwnedScript sid uid st = Inr sc \<Longrightarrow> owns st uid sid"
  using getOwnedScript_Inr [of sid uid st sc] by (auto simp: owns_iff)


lemmas example_defs = signed_in_def script_S1_def script_S2_def script_S3_def section_of_def
  own_rows_def store_small_def store_full_def script_S5_def store_long_def

lemmas getOwnedScript_eval = getOwnedScript_def row_decodes_def safe_integer_def Let_def

section \<open>Ownership of scripts\<close>



section \<open>Listing\<close>










section \<open>Updating a script\<close>

lemma set_script_fields:
  "s_id (set_script v r) = s_id r"
  "s_userId (set_script v r) = s_userId r"
  "s_createdAt (set_script v r) = s_createdAt r"
  "s_title (set_script v r) = (case us_title v of None \<Rightarrow> s_title r | Some t \<Rightarrow> t)"
  "s_description (set_script v r) =
     (case us_description v of None \<Rightarrow> s_description r | Some t \<Rightarrow> Some t)"
  "s_meditationType (set_script v r) =
     (case us_meditationType v of None \<Rightarrow> s_meditationType r | Some t \<Rightarrow> Some t)"
  "s_focusArea (set_script v r) =
     (case us_focusArea v of None \<Rightarrow> s_focusArea r | Some t \<Rightarrow> Some t)"
  "s_difficulty (set_script v r) =
     (case us_difficulty v of None \<Rightarrow> s_difficulty r | Some t \<Rightarrow> Some t)"
  "s_language (set_script v r) =
     (case us_language v of None \<Rightarrow> s_language r | Some t \<Rightarrow> Some t)"
  "s_targetDurationMinutes (set_script v r) =
     (case us_targetDurationMinutes v of None \<Rightarrow> s_targetDurationMinutes r
      | Some t \<Rightarrow> Some t)"
  "s_fullScript (set_script v r) =
     (case us_fullScript v of None \<Rightarrow> s_fullScript r | Some t \<Rightarrow> Some t)"
  "s_notes (set_script v r) = (case us_notes v of None \<Rightarrow> s_notes r | Some t \<Rightarrow> Some t)"
  "s_isFavorite (set_script v r) =
     (case us_isFavorite v of None \<Rightarrow> s_isFavorite r | Some t \<Rightarrow> t)"
  "s_updatedAt (set_script v r) =
     (case us_updatedAt v of None \<Rightarrow> s_updatedAt r | Some t \<Rightarrow> t)"
  by (simp_all add: set_script_def set_req_def set_opt_def)

text \<open>What a successful update is: the caller is signed in, the schema accepts the
  payload, the caller owns the script, and the store is rewritten by the one
  \<^verbatim>\<open>db.update\<close>.\<close>

lemma updateMeditationScript_Inr:
  assumes "updateMeditationScript inp ctx now st = (Inr rid, st')"
  shows "\<exists>u. requireUser ctx = Inr u \<and> update_schema inp \<and>
             owns st (user_id u) (u_id inp) \<and> rid = u_id inp \<and>
             st' = update_scripts
                     \<lparr>us_title = u_title inp,
                      us_description = u_description inp,
                      us_meditationType = u_meditationType inp,
                      us_focusArea = u_focusArea inp,
                      us_difficulty = u_difficulty inp,
                      us_language = u_language inp,
                      us_targetDurationMinutes = u_targetDurationMinutes inp,
                      us_fullScript = u_fullScript inp,
                      us_notes = u_notes inp,
                      us_isFavorite = u_isFavorite inp,
                      us_updatedAt = Some now\<rparr>
                     (\<lambda>r. s_id r = u_id inp \<and> s_userId r = user_id u) st"
proof -
  from assms have schema: "update_schema inp"
    by (auto simp: updateMeditationScript_def split: if_splits)
  with assms have h: "updateMeditationScript_handler inp ctx now st = (Inr rid, st')"
    by (simp add: updateMeditationScript_def)
  then obtain u where u: "requireUser ctx = Inr u"
    by (cases "requireUser ctx") (auto simp: updateMeditationScript_handler_def)
  from h u obtain sc where sc: "getOwnedScript (u_id inp) (user_id u) st = Inr sc"
    by (cases "getOwnedScript (u_id inp) (user_id u) st")
       (auto simp: updateMeditationScript_handler_def)
  from h u sc show ?thesis
    using schema getOwnedScript_owns [OF sc]
    by (auto simp: updateMeditationScript_handler_def Let_def)
qed

text \<open>
  C4. When updateMeditationScript succeeds, it returns the id of the payload, the
  caller owns a script with that id, the section table and the number and order of
  the scripts are as before, every script that is not the caller's script with that
  id is unchanged, and in the caller's script with that id each column of the
  payload that is provided has the provided value, each column that is not provided
  has its prior value, \<open>id\<close>, \<open>userId\<close> and \<open>createdAt\<close> have their prior values and
  \<open>updatedAt\<close> is the time of the call. A payload with no field besides \<open>id\<close> fails
  with the input error and the store is the one before the call.
\<close>

theorem update_changes_provided_fields_only:
  "(updateMeditationScript inp ctx now st = (Inr rid, st') \<longrightarrow>
      (\<exists>u. requireUser ctx = Inr u \<and> rid = u_id inp \<and>
         owns st (user_id u) (u_id inp) \<and>
         MeditationScriptSections st' = MeditationScriptSections st \<and>
         length (MeditationScripts st') = length (MeditationScripts st) \<and>
         (\<forall>i < length (MeditationScripts st).
            let old = MeditationScripts st ! i; new = MeditationScripts st' ! i in
            if s_id old = u_id inp \<and> s_userId old = user_id u then
              s_id new = s_id old \<and> s_userId new = s_userId old \<and>
              s_createdAt new = s_createdAt old \<and> s_updatedAt new = now \<and>
              s_title new = (case u_title inp of None \<Rightarrow> s_title old | Some v \<Rightarrow> v) \<and>
              s_description new =
                (case u_description inp of None \<Rightarrow> s_description old | Some v \<Rightarrow> Some v) \<and>
              s_meditationType new =
                (case u_meditationType inp of None \<Rightarrow> s_meditationType old
                 | Some v \<Rightarrow> Some v) \<and>
              s_focusArea new =
                (case u_focusArea inp of None \<Rightarrow> s_focusArea old | Some v \<Rightarrow> Some v) \<and>
              s_difficulty new =
                (case u_difficulty inp of None \<Rightarrow> s_difficulty old | Some v \<Rightarrow> Some v) \<and>
              s_language new =
                (case u_language inp of None \<Rightarrow> s_language old | Some v \<Rightarrow> Some v) \<and>
              s_targetDurationMinutes new =
                (case u_targetDurationMinutes inp of None \<Rightarrow> s_targetDurationMinutes old
                 | Some v \<Rightarrow> Some v) \<and>
              s_fullScript new =
                (case u_fullScript inp of None \<Rightarrow> s_fullScript old | Some v \<Rightarrow> Some v) \<and>
              s_notes new =
                (case u_notes inp of None \<Rightarrow> s_notes old | Some v \<Rightarrow> Some v) \<and>
              s_isFavorite new =
                (case u_isFavorite inp of None \<Rightarrow> s_isFavorite old | Some v \<Rightarrow> v)
            else new = old))) \<and>
   (u_title inp = None \<and> u_description inp = None \<and> u_meditationType inp = None \<and>
    u_focusArea inp = None \<and> u_difficulty inp = None \<and> u_language inp = None \<and>
    u_targetDurationMinutes inp = None \<and> u_fullScript inp = None \<and> u_notes inp = None \<and>
    u_isFavorite inp = None \<longrightarrow>
      updateMeditationScript inp ctx now st = (Inl ActionInputError, st))"
proof (intro conjI impI)
  assume ok: "updateMeditationScript inp ctx now st = (Inr rid, st')"
  from updateMeditationScript_Inr [OF ok] obtain u where
    u: "requireUser ctx = Inr u" and rid: "rid = u_id inp"
    and own: "owns st (user_id u) (u_id inp)"
    and st': "st' = update_scripts
                     \<lparr>us_title = u_title inp,
                      us_description = u_description inp,
                      us_meditationType = u_meditationType inp,
                      us_focusArea = u_focusArea inp,
                      us_difficulty = u_difficulty inp,
                      us_language = u_language inp,
                      us_targetDurationMinutes = u_targetDurationMinutes inp,
                      us_fullScript = u_fullScript inp,
                      us_notes = u_notes inp,
                      us_isFavorite = u_isFavorite inp,
                      us_updatedAt = Some now\<rparr>
                     (\<lambda>r. s_id r = u_id inp \<and> s_userId r = user_id u) st"
    by blast
  have secs: "MeditationScriptSections st' = MeditationScriptSections st"
    by (simp add: st' update_scripts_def)
  have len: "length (MeditationScripts st') = length (MeditationScripts st)"
    by (simp add: st' update_scripts_def)
  have rows: "\<forall>i < length (MeditationScripts st).
            let old = MeditationScripts st ! i; new = MeditationScripts st' ! i in
            if s_id old = u_id inp \<and> s_userId old = user_id u then
              s_id new = s_id old \<and> s_userId new = s_userId old \<and>
              s_createdAt new = s_createdAt old \<and> s_updatedAt new = now \<and>
              s_title new = (case u_title inp of None \<Rightarrow> s_title old | Some v \<Rightarrow> v) \<and>
              s_description new =
                (case u_description inp of None \<Rightarrow> s_description old | Some v \<Rightarrow> Some v) \<and>
              s_meditationType new =
                (case u_meditationType inp of None \<Rightarrow> s_meditationType old
                 | Some v \<Rightarrow> Some v) \<and>
              s_focusArea new =
                (case u_focusArea inp of None \<Rightarrow> s_focusArea old | Some v \<Rightarrow> Some v) \<and>
              s_difficulty new =
                (case u_difficulty inp of None \<Rightarrow> s_difficulty old | Some v \<Rightarrow> Some v) \<and>
              s_language new =
                (case u_language inp of None \<Rightarrow> s_language old | Some v \<Rightarrow> Some v) \<and>
              s_targetDurationMinutes new =
                (case u_targetDurationMinutes inp of None \<Rightarrow> s_targetDurationMinutes old
                 | Some v \<Rightarrow> Some v) \<and>
              s_fullScript new =
                (case u_fullScript inp of None \<Rightarrow> s_fullScript old | Some v \<Rightarrow> Some v) \<and>
              s_notes new =
                (case u_notes inp of None \<Rightarrow> s_notes old | Some v \<Rightarrow> Some v) \<and>
              s_isFavorite new =
                (case u_isFavorite inp of None \<Rightarrow> s_isFavorite old | Some v \<Rightarrow> v)
            else new = old"
    by (simp add: st' update_scripts_def Let_def set_script_fields)
  from u rid own secs len rows
  show "\<exists>u. requireUser ctx = Inr u \<and> rid = u_id inp \<and>
         owns st (user_id u) (u_id inp) \<and>
         MeditationScriptSections st' = MeditationScriptSections st \<and>
         length (MeditationScripts st') = length (MeditationScripts st) \<and>
         (\<forall>i < length (MeditationScripts st).
            let old = MeditationScripts st ! i; new = MeditationScripts st' ! i in
            if s_id old = u_id inp \<and> s_userId old = user_id u then
              s_id new = s_id old \<and> s_userId new = s_userId old \<and>
              s_createdAt new = s_createdAt old \<and> s_updatedAt new = now \<and>
              s_title new = (case u_title inp of None \<Rightarrow> s_title old | Some v \<Rightarrow> v) \<and>
              s_description new =
                (case u_description inp of None \<Rightarrow> s_description old | Some v \<Rightarrow> Some v) \<and>
              s_meditationType new =
                (case u_meditationType inp of None \<Rightarrow> s_meditationType old
                 | Some v \<Rightarrow> Some v) \<and>
              s_focusArea new =
                (case u_focusArea inp of None \<Rightarrow> s_focusArea old | Some v \<Rightarrow> Some v) \<and>
              s_difficulty new =
                (case u_difficulty inp of None \<Rightarrow> s_difficulty old | Some v \<Rightarrow> Some v) \<and>
              s_language new =
                (case u_language inp of None \<Rightarrow> s_language old | Some v \<Rightarrow> Some v) \<and>
              s_targetDurationMinutes new =
                (case u_targetDurationMinutes inp of None \<Rightarrow> s_targetDurationMinutes old
                 | Some v \<Rightarrow> Some v) \<and>
              s_fullScript new =
                (case u_fullScript inp of None \<Rightarrow> s_fullScript old | Some v \<Rightarrow> Some v) \<and>
              s_notes new =
                (case u_notes inp of None \<Rightarrow> s_notes old | Some v \<Rightarrow> Some v) \<and>
              s_isFavorite new =
                (case u_isFavorite inp of None \<Rightarrow> s_isFavorite old | Some v \<Rightarrow> v)
            else new = old)"
    by blast
next
  assume "u_title inp = None \<and> u_description inp = None \<and> u_meditationType inp = None \<and>
    u_focusArea inp = None \<and> u_difficulty inp = None \<and> u_language inp = None \<and>
    u_targetDurationMinutes inp = None \<and> u_fullScript inp = None \<and> u_notes inp = None \<and>
    u_isFavorite inp = None"
  then have "\<not> update_schema inp"
    by (simp add: update_schema_def update_refine_def)
  then show "updateMeditationScript inp ctx now st = (Inl ActionInputError, st)"
    by (simp add: updateMeditationScript_def)
qed

theorem update_changes_provided_fields_only_witness:
  "updateMeditationScript
       \<lparr>u_id = ''S1'', u_title = Some ''X'', u_description = None,
        u_meditationType = None, u_focusArea = None, u_difficulty = None,
        u_language = None, u_targetDurationMinutes = None, u_fullScript = None,
        u_notes = None, u_isFavorite = None\<rparr> (signed_in ''alice'') 900 store_full =
     (Inr ''S1'',
      store_full\<lparr>MeditationScripts :=
        [script_S1\<lparr>s_title := ''X'', s_updatedAt := 900\<rparr>, script_S2, script_S3]\<rparr>) \<and>
   MeditationScriptSections
     (store_full\<lparr>MeditationScripts :=
        [script_S1\<lparr>s_title := ''X'', s_updatedAt := 900\<rparr>, script_S2, script_S3]\<rparr>) =
     MeditationScriptSections store_full \<and>
   length (MeditationScripts
     (store_full\<lparr>MeditationScripts :=
        [script_S1\<lparr>s_title := ''X'', s_updatedAt := 900\<rparr>, script_S2, script_S3]\<rparr>)) =
     length (MeditationScripts store_full) \<and>
   updateMeditationScript
       \<lparr>u_id = ''S1'', u_title = None, u_description = None,
        u_meditationType = None, u_focusArea = None, u_difficulty = None,
        u_language = None, u_targetDurationMinutes = None, u_fullScript = None,
        u_notes = None, u_isFavorite = None\<rparr> (signed_in ''alice'') 900 store_full =
     (Inl ActionInputError, store_full)"
proof -
  let ?inp = "\<lparr>u_id = ''S1'', u_title = Some ''X'', u_description = None,
        u_meditationType = None, u_focusArea = None, u_difficulty = None,
        u_language = None, u_targetDurationMinutes = None, u_fullScript = None,
        u_notes = None, u_isFavorite = None\<rparr>"
  let ?bare = "\<lparr>u_id = ''S1'', u_title = None, u_description = None,
        u_meditationType = None, u_focusArea = None, u_difficulty = None,
        u_language = None, u_targetDurationMinutes = None, u_fullScript = None,
        u_notes = None, u_isFavorite = None\<rparr>"
  let ?st' = "store_full\<lparr>MeditationScripts :=
        [script_S1\<lparr>s_title := ''X'', s_updatedAt := 900\<rparr>, script_S2, script_S3]\<rparr>"
  have run: "updateMeditationScript ?inp (signed_in ''alice'') 900 store_full =
               (Inr ''S1'', ?st')"
    by (simp add: updateMeditationScript_def updateMeditationScript_handler_def
        update_schema_def update_refine_def positive_opt_def requireUser_def
        getOwnedScript_eval update_scripts_def set_script_def set_req_def set_opt_def
        Let_def example_defs)
  from update_changes_provided_fields_only
         [of ?inp "signed_in ''alice''" 900 store_full "''S1''" ?st'] run
  have kept: "MeditationScriptSections ?st' = MeditationScriptSections store_full \<and>
              length (MeditationScripts ?st') = length (MeditationScripts store_full)"
    by blast
  from update_changes_provided_fields_only
         [of ?bare "signed_in ''alice''" 900 store_full "''S1''" ?st']
  have refused: "updateMeditationScript ?bare (signed_in ''alice'') 900 store_full =
                   (Inl ActionInputError, store_full)"
    by simp
  from run kept refused show ?thesis by blast
qed

section \<open>Reading a script with its sections\<close>

lemma js_insert_insort_key:
  "js_insert (\<lambda>a b. f a - f b) x ys = insort_key f x ys" for f :: "'a \<Rightarrow> int"
  by (induction ys) auto

lemma js_sort_sort_key:
  "js_sort (\<lambda>a b. f a - f b) xs = sort_key f xs" for f :: "'a \<Rightarrow> int"
proof -
  have "js_insert (\<lambda>a b. f a - f b) = insort_key f"
    by (intro ext) (rule js_insert_insort_key)
  then show ?thesis by (simp add: js_sort_def sort_key_def)
qed

lemma getMeditationScriptWithSections_owned:
  assumes auth: "requireUser ctx = Inr u"
    and got: "getOwnedScript sid (user_id u) st = Inr sc"
  shows "getMeditationScriptWithSections sid ctx st =
           (Inr (sc, sort_key x_orderIndex
                       (filter (\<lambda>r. x_scriptId r = sid) (MeditationScriptSections st))), st)"
proof -
  from getOwnedScript_Inr [OF got] have "s_id sc = sid" by simp
  then show ?thesis
    by (simp add: getMeditationScriptWithSections_def auth got Let_def js_sort_sort_key)
qed




section \<open>Upserting a section\<close>

lemma set_section_fields:
  "x_id (set_section v r) = x_id r"
  "x_scriptId (set_section v r) = x_scriptId r"
  "x_createdAt (set_section v r) = x_createdAt r"
  "x_orderIndex (set_section v r) =
     (case ux_orderIndex v of None \<Rightarrow> x_orderIndex r | Some t \<Rightarrow> t)"
  "x_body (set_section v r) = (case ux_body v of None \<Rightarrow> x_body r | Some t \<Rightarrow> t)"
  "x_sectionType (set_section v r) =
     (case ux_sectionType v of None \<Rightarrow> x_sectionType r | Some t \<Rightarrow> Some t)"
  "x_title (set_section v r) = (case ux_title v of None \<Rightarrow> x_title r | Some t \<Rightarrow> Some t)"
  "x_suggestedDurationMinutes (set_section v r) =
     (case ux_suggestedDurationMinutes v of None \<Rightarrow> x_suggestedDurationMinutes r
      | Some t \<Rightarrow> Some t)"
  by (simp_all add: set_section_def set_req_def set_opt_def)

text \<open>The handler once the caller is signed in, the schema has accepted the payload
  and the parent script is resolved, on its two paths.\<close>

lemma upsert_update_path:
  assumes auth: "requireUser ctx = Inr u"
    and schema: "upsert_schema inp"
    and got: "getOwnedScript (p_scriptId inp) (user_id u) st = Inr script"
    and pid: "p_id inp = Some sid" and ne: "sid \<noteq> []"
  shows "upsertMeditationScriptSection inp ctx now nid st =
           (case find (\<lambda>r. x_id r = sid) (MeditationScriptSections st) of
              None \<Rightarrow> (Inl (ActionError NOT_FOUND ''Section not found.''), st)
            | Some e \<Rightarrow>
                if x_scriptId e \<noteq> s_id script then
                  (Inl (ActionError FORBIDDEN
                         ''You cannot modify sections for another user's script.''), st)
                else
                  (Inr sid,
                   update_sections
                     \<lparr>ux_orderIndex = Some (p_orderIndex inp),
                      ux_sectionType = p_sectionType inp,
                      ux_title = p_title inp,
                      ux_body = Some (p_body inp),
                      ux_suggestedDurationMinutes = p_suggestedDurationMinutes inp\<rparr>
                     (\<lambda>r. x_id r = sid) st))"
  by (simp add: upsertMeditationScriptSection_def upsertMeditationScriptSection_handler_def
      schema auth got pid ne truthy_def Let_def find_filter_case split: list.splits)

lemma upsert_create_path:
  assumes auth: "requireUser ctx = Inr u"
    and schema: "upsert_schema inp"
    and got: "getOwnedScript (p_scriptId inp) (user_id u) st = Inr script"
    and falsy: "\<not> truthy (p_id inp)"
  shows "upsertMeditationScriptSection inp ctx now nid st =
           (if nid \<in> set (map x_id (MeditationScriptSections st)) then (Inl StoreError, st)
            else (Inr nid,
                  st\<lparr>MeditationScriptSections := MeditationScriptSections st @
                     [\<lparr>x_id = nid,
                       x_scriptId = s_id script,
                       x_orderIndex = p_orderIndex inp,
                       x_sectionType = p_sectionType inp,
                       x_title = p_title inp,
                       x_body = p_body inp,
                       x_suggestedDurationMinutes = p_suggestedDurationMinutes inp,
                       x_createdAt = now\<rparr>]\<rparr>))"
  by (simp add: upsertMeditationScriptSection_def upsertMeditationScriptSection_handler_def
      schema auth got falsy insert_section_def)




text \<open>
  C10. A call of upsertMeditationScriptSection whose \<open>id\<close> is present and is the
  empty string, by a signed-in caller who owns the parent script, with a payload the
  schema accepts and a generated id that no section has yet, takes the create path:
  it returns the generated id and appends a new section with that id, the parent's
  id, the payload's columns and the time of the call; every row that was in the store
  stays. It does not fail with NOT_FOUND, whether or not a section has the id "".
\<close>

theorem upsert_empty_id_creates:
  assumes auth: "requireUser ctx = Inr u"
    and schema: "upsert_schema inp"
    and got: "getOwnedScript (p_scriptId inp) (user_id u) st = Inr script"
    and empty: "p_id inp = Some []"
    and fresh: "nid \<notin> set (map x_id (MeditationScriptSections st))"
  shows "upsertMeditationScriptSection inp ctx now nid st =
           (Inr nid,
            st\<lparr>MeditationScriptSections := MeditationScriptSections st @
               [\<lparr>x_id = nid,
                 x_scriptId = p_scriptId inp,
                 x_orderIndex = p_orderIndex inp,
                 x_sectionType = p_sectionType inp,
                 x_title = p_title inp,
                 x_body = p_body inp,
                 x_suggestedDurationMinutes = p_suggestedDurationMinutes inp,
                 x_createdAt = now\<rparr>]\<rparr>) \<and>
         fst (upsertMeditationScriptSection inp ctx now nid st) \<noteq>
           Inl (ActionError NOT_FOUND ''Section not found.'')"
proof -
  have falsy: "\<not> truthy (p_id inp)"
    by (simp add: truthy_def empty)
  from getOwnedScript_Inr [OF got] have sid: "s_id script = p_scriptId inp" by simp
  show ?thesis
    using fresh by (simp add: upsert_create_path [OF auth schema got falsy] sid)
qed

theorem upsert_empty_id_creates_witness:
  "requireUser (signed_in ''alice'') = Inr \<lparr>user_id = ''alice''\<rparr> \<and>
   getOwnedScript ''S1'' ''alice'' store_small = Inr script_S1 \<and>
   ''T5'' \<notin> set (map x_id (MeditationScriptSections store_small)) \<and>
   upsertMeditationScriptSection
       \<lparr>p_id = Some [], p_scriptId = ''S1'', p_orderIndex = 1, p_sectionType = None,
        p_title = None, p_body = ''x'', p_suggestedDurationMinutes = None\<rparr>
       (signed_in ''alice'') 500 ''T5'' store_small =
     (Inr ''T5'',
      store_small\<lparr>MeditationScriptSections := MeditationScriptSections store_small @
        [\<lparr>x_id = ''T5'', x_scriptId = ''S1'', x_orderIndex = 1, x_sectionType = None,
          x_title = None, x_body = ''x'', x_suggestedDurationMinutes = None,
          x_createdAt = 500\<rparr>]\<rparr>)"
proof -
  let ?inp = "\<lparr>p_id = Some [], p_scriptId = ''S1'', p_orderIndex = 1, p_sectionType = None,
        p_title = None, p_body = ''x'', p_suggestedDurationMinutes = None\<rparr>"
  have auth: "requireUser (signed_in ''alice'') = Inr \<lparr>user_id = ''alice''\<rparr>"
    by (rule requireUser_signed_in)
  have s1: "getOwnedScript ''S1'' ''alice'' store_small = Inr script_S1"
    by (simp add: getOwnedScript_eval example_defs)
  have got: "getOwnedScript (p_scriptId ?inp) (user_id \<lparr>user_id = ''alice''\<rparr>) store_small =
               Inr script_S1"
    using s1 by simp
  have schema: "upsert_schema ?inp"
    by (simp add: upsert_schema_def positive_opt_def)
  have empty: "p_id ?inp = Some []" by simp
  have fresh: "''T5'' \<notin> set (map x_id (MeditationScriptSections store_small))"
    by (simp add: example_defs)
  from upsert_empty_id_creates [OF auth schema got empty fresh, of 500]
  have "upsertMeditationScriptSection ?inp (signed_in ''alice'') 500 ''T5'' store_small =
     (Inr ''T5'',
      store_small\<lparr>MeditationScriptSections := MeditationScriptSections store_small @
        [\<lparr>x_id = ''T5'', x_scriptId = ''S1'', x_orderIndex = 1, x_sectionType = None,
          x_title = None, x_body = ''x'', x_suggestedDurationMinutes = None,
          x_createdAt = 500\<rparr>]\<rparr>)"
    by simp
  with auth s1 fresh show ?thesis by blast
qed

section \<open>Deleting a section\<close>





section \<open>The declared constraints are kept\<close>

lemma createMeditationScript_cases:
  "createMeditationScript inp ctx now nid st = (r, st') \<Longrightarrow>
     st' = st \<and> (\<forall>k. r \<noteq> Inr k) \<or>
     (\<exists>u. requireUser ctx = Inr u \<and> create_schema inp \<and> r = Inr nid \<and>
          nid \<notin> set (map s_id (MeditationScripts st)) \<and>
          st' = st\<lparr>MeditationScripts := MeditationScripts st @
                  [\<lparr>s_id = nid,
                    s_userId = user_id u,
                    s_title = c_title inp,
                    s_description = c_description inp,
                    s_meditationType = c_meditationType inp,
                    s_focusArea = c_focusArea inp,
                    s_difficulty = c_difficulty inp,
                    s_language = c_language inp,
                    s_targetDurationMinutes = c_targetDurationMinutes inp,
                    s_fullScript = c_fullScript inp,
                    s_notes = c_notes inp,
                    s_isFavorite = (case c_isFavorite inp of None \<Rightarrow> False | Some b \<Rightarrow> b),
                    s_createdAt = now,
                    s_updatedAt = now\<rparr>]\<rparr>)"
  by (cases "requireUser ctx")
     (auto simp: createMeditationScript_def createMeditationScript_handler_def
        insert_script_def split: if_splits)

lemma map_id_update_scripts:
  "map s_id (MeditationScripts (update_scripts v c st)) = map s_id (MeditationScripts st)"
  by (simp add: update_scripts_def set_script_fields cong: if_cong)


lemma map_id_update_sections:
  "map x_id (MeditationScriptSections (update_sections v c st)) =
     map x_id (MeditationScriptSections st)"
  by (simp add: update_sections_def set_section_fields cong: if_cong)

lemma map_scriptId_update_sections:
  "map x_scriptId (MeditationScriptSections (update_sections v c st)) =
     map x_scriptId (MeditationScriptSections st)"
  by (simp add: update_sections_def set_section_fields cong: if_cong)

lemma references_hold_iff:
  "references_hold st \<longleftrightarrow>
     set (map x_scriptId (MeditationScriptSections st)) \<subseteq> set (map s_id (MeditationScripts st))"
  by (auto simp: references_hold_def list_all_iff)

lemma empty_store_constraints:
  "primary_keys_hold \<lparr>MeditationScripts = [], MeditationScriptSections = []\<rparr>"
  "references_hold \<lparr>MeditationScripts = [], MeditationScriptSections = []\<rparr>"
  by (simp_all add: primary_keys_hold_def references_hold_def)

lemma create_primary_keys:
  assumes "primary_keys_hold st"
  shows "primary_keys_hold (snd (createMeditationScript inp ctx now nid st))"
proof -
  obtain r st' where run: "createMeditationScript inp ctx now nid st = (r, st')"
    by (cases "createMeditationScript inp ctx now nid st")
  from createMeditationScript_cases [OF run] assms have "primary_keys_hold st'"
    by (auto simp: primary_keys_hold_def)
  with run show ?thesis by simp
qed

lemma create_references:
  assumes "references_hold st"
  shows "references_hold (snd (createMeditationScript inp ctx now nid st))"
proof -
  obtain r st' where run: "createMeditationScript inp ctx now nid st = (r, st')"
    by (cases "createMeditationScript inp ctx now nid st")
  from createMeditationScript_cases [OF run] consider "st' = st"
    | row where "st' = st\<lparr>MeditationScripts := MeditationScripts st @ [row]\<rparr>"
    by blast
  then have "references_hold st'"
  proof cases
    case 1
    with assms show ?thesis by simp
  next
    case 2
    with assms show ?thesis
      by (auto simp: references_hold_def list_all_iff)
  qed
  with run show ?thesis by simp
qed

lemma updateMeditationScript_cases:
  "snd (updateMeditationScript inp ctx now st) = st \<or>
   (\<exists>v c. snd (updateMeditationScript inp ctx now st) = update_scripts v c st)"
  by (auto simp: updateMeditationScript_def updateMeditationScript_handler_def Let_def
      split: sum.splits)

lemma update_primary_keys:
  assumes "primary_keys_hold st"
  shows "primary_keys_hold (snd (updateMeditationScript inp ctx now st))"
proof -
  have "primary_keys_hold (update_scripts v c st)" for v c
    using assms
    by (simp add: primary_keys_hold_def map_id_update_scripts)
       (simp add: update_scripts_def)
  with assms updateMeditationScript_cases [of inp ctx now st] show ?thesis
    by auto
qed

lemma update_references:
  assumes "references_hold st"
  shows "references_hold (snd (updateMeditationScript inp ctx now st))"
proof -
  have "MeditationScriptSections (update_scripts v c st) = MeditationScriptSections st" for v c
    by (simp add: update_scripts_def)
  then have "references_hold (update_scripts v c st)" for v c
    using assms by (simp add: references_hold_iff map_id_update_scripts del: set_map)
  with assms updateMeditationScript_cases [of inp ctx now st] show ?thesis
    by auto
qed

lemma upsertMeditationScriptSection_cases:
  "snd (upsertMeditationScriptSection inp ctx now nid st) = st \<or>
   (\<exists>v c. snd (upsertMeditationScriptSection inp ctx now nid st) = update_sections v c st) \<or>
   (\<exists>row. x_id row = nid \<and> nid \<notin> set (map x_id (MeditationScriptSections st)) \<and>
      x_scriptId row \<in> set (map s_id (MeditationScripts st)) \<and>
      snd (upsertMeditationScriptSection inp ctx now nid st) =
        st\<lparr>MeditationScriptSections := MeditationScriptSections st @ [row]\<rparr>)"
proof (cases "upsert_schema inp")
  case False
  then show ?thesis by (simp add: upsertMeditationScriptSection_def)
next
  case schema: True
  show ?thesis
  proof (cases "requireUser ctx")
    case (Inl e)
    then show ?thesis
      by (simp add: upsertMeditationScriptSection_def upsertMeditationScriptSection_handler_def)
  next
    case auth: (Inr u)
    show ?thesis
    proof (cases "getOwnedScript (p_scriptId inp) (user_id u) st")
      case (Inl e)
      with auth show ?thesis
        by (simp add: upsertMeditationScriptSection_def
            upsertMeditationScriptSection_handler_def)
    next
      case got: (Inr script)
      from getOwnedScript_Inr [OF got] have "script \<in> set (MeditationScripts st)"
        by simp
      then have known: "s_id script \<in> set (map s_id (MeditationScripts st))"
        by simp
      show ?thesis
      proof (cases "truthy (p_id inp)")
        case True
        then obtain sid where "p_id inp = Some sid" "sid \<noteq> []"
          by (auto simp: truthy_def split: option.splits)
        from upsert_update_path [OF auth schema got this, of now nid] show ?thesis
          by (auto split: option.splits if_splits)
      next
        case False
        note path = upsert_create_path [OF auth schema got False, of now nid]
        show ?thesis
        proof (cases "nid \<in> set (map x_id (MeditationScriptSections st))")
          case True
          with path show ?thesis by simp
        next
          case fresh: False
          let ?row = "\<lparr>x_id = nid,
                       x_scriptId = s_id script,
                       x_orderIndex = p_orderIndex inp,
                       x_sectionType = p_sectionType inp,
                       x_title = p_title inp,
                       x_body = p_body inp,
                       x_suggestedDurationMinutes = p_suggestedDurationMinutes inp,
                       x_createdAt = now\<rparr>"
          from path fresh
          have "snd (upsertMeditationScriptSection inp ctx now nid st) =
                  st\<lparr>MeditationScriptSections := MeditationScriptSections st @ [?row]\<rparr>"
            by simp
          moreover have "x_id ?row = nid" by simp
          moreover have "x_scriptId ?row \<in> set (map s_id (MeditationScripts st))"
            using known by simp
          ultimately show ?thesis using fresh by blast
        qed
      qed
    qed
  qed
qed

lemma upsert_primary_keys:
  assumes "primary_keys_hold st"
  shows "primary_keys_hold (snd (upsertMeditationScriptSection inp ctx now nid st))"
proof -
  have upd: "primary_keys_hold (update_sections v c st)" for v c
    using assms
    by (simp add: primary_keys_hold_def map_id_update_sections)
       (simp add: update_sections_def)
  have ins: "primary_keys_hold (st\<lparr>MeditationScriptSections :=
               MeditationScriptSections st @ [row]\<rparr>)"
    if "x_id row \<notin> set (map x_id (MeditationScriptSections st))" for row
    using assms that by (auto simp: primary_keys_hold_def)
  from upsertMeditationScriptSection_cases [of inp ctx now nid st] assms upd ins
  show ?thesis by auto
qed

lemma upsert_references:
  assumes "references_hold st"
  shows "references_hold (snd (upsertMeditationScriptSection inp ctx now nid st))"
proof -
  have "MeditationScripts (update_sections v c st) = MeditationScripts st" for v c
    by (simp add: update_sections_def)
  then have upd: "references_hold (update_sections v c st)" for v c
    using assms by (simp add: references_hold_iff map_scriptId_update_sections del: set_map)
  have ins: "references_hold (st\<lparr>MeditationScriptSections :=
               MeditationScriptSections st @ [row]\<rparr>)"
    if "x_scriptId row \<in> set (map s_id (MeditationScripts st))" for row
    using assms that by (auto simp: references_hold_def)
  from upsertMeditationScriptSection_cases [of inp ctx now nid st] assms upd ins
  show ?thesis by auto
qed

lemma deleteMeditationScriptSection_cases:
  "snd (deleteMeditationScriptSection sid ctx st) = st \<or>
   snd (deleteMeditationScriptSection sid ctx st) = delete_sections (\<lambda>r. x_id r = sid) st"
  by (auto simp: deleteMeditationScriptSection_def split: sum.splits list.splits)

lemma delete_primary_keys:
  assumes "primary_keys_hold st"
  shows "primary_keys_hold (snd (deleteMeditationScriptSection sid ctx st))"
proof -
  have "primary_keys_hold (delete_sections (\<lambda>r. x_id r = sid) st)"
    using assms by (simp add: primary_keys_hold_def delete_sections_def distinct_map_filter)
  with assms deleteMeditationScriptSection_cases [of sid ctx st] show ?thesis by auto
qed

lemma delete_references:
  assumes "references_hold st"
  shows "references_hold (snd (deleteMeditationScriptSection sid ctx st))"
proof -
  have "references_hold (delete_sections (\<lambda>r. x_id r = sid) st)"
    using assms by (auto simp: references_hold_def delete_sections_def list_all_iff)
  with assms deleteMeditationScriptSection_cases [of sid ctx st] show ?thesis by auto
qed

section \<open>Creating a script and reading it back\<close>

text \<open>
  C7 fails for a payload whose \<open>targetDurationMinutes\<close> is \<open>2^53\<close>: the schema
  accepts it and the script is created, but reading it back ends with the store's
  error, because the select cannot decode the stored integer.
\<close>

theorem unsafe_integer_is_created_but_not_read_back:
  "create_schema
     \<lparr>c_title = ''Evening'', c_description = None, c_meditationType = None,
      c_focusArea = None, c_difficulty = None, c_language = None,
      c_targetDurationMinutes = Some 9007199254740992, c_fullScript = None,
      c_notes = None, c_isFavorite = None\<rparr> \<and>
   references_hold store_full \<and>
   fst (createMeditationScript
     \<lparr>c_title = ''Evening'', c_description = None, c_meditationType = None,
      c_focusArea = None, c_difficulty = None, c_language = None,
      c_targetDurationMinutes = Some 9007199254740992, c_fullScript = None,
      c_notes = None, c_isFavorite = None\<rparr> (signed_in ''alice'') 900 ''S4'' store_full) =
     Inr ''S4'' \<and>
   fst (getMeditationScriptWithSections ''S4'' (signed_in ''alice'')
     (snd (createMeditationScript
       \<lparr>c_title = ''Evening'', c_description = None, c_meditationType = None,
        c_focusArea = None, c_difficulty = None, c_language = None,
        c_targetDurationMinutes = Some 9007199254740992, c_fullScript = None,
        c_notes = None, c_isFavorite = None\<rparr> (signed_in ''alice'') 900 ''S4''
       store_full))) = Inl StoreError"
  by (simp add: createMeditationScript_def createMeditationScript_handler_def
      create_schema_def positive_opt_def insert_script_def references_hold_def
      getMeditationScriptWithSections_def requireUser_def getOwnedScript_eval example_defs)

text \<open>
  C7, amended: the payload's \<open>targetDurationMinutes\<close>, when provided, is below
  \<open>2^53\<close>. In a store that satisfies the declared reference of \<open>scriptId\<close> to the scripts
  (every store the actions reach from the empty one does), for a signed-in caller
  and a payload the schema accepts: createMeditationScript succeeds when the
  generated id is not yet the id of a script, and whenever it succeeds with an id,
  getMeditationScriptWithSections on that id in the resulting store returns the
  script whose columns are those of the payload, with \<open>isFavorite\<close> false where the
  payload has none, \<open>createdAt\<close> and \<open>updatedAt\<close> both the time of the call and
  \<open>userId\<close> the caller's id, together with the empty list of sections.
\<close>

theorem created_script_reads_back:
  assumes refs: "references_hold st"
    and auth: "requireUser ctx = Inr u"
    and schema: "create_schema inp"
    and small: "\<forall>n. c_targetDurationMinutes inp = Some n \<longrightarrow> n < 9007199254740992"
  shows "(nid \<notin> set (map s_id (MeditationScripts st)) \<longrightarrow>
            fst (createMeditationScript inp ctx now nid st) = Inr nid) \<and>
         (\<forall>rid st'. createMeditationScript inp ctx now nid st = (Inr rid, st') \<longrightarrow>
            getMeditationScriptWithSections rid ctx st' =
              (Inr (\<lparr>s_id = rid,
                     s_userId = user_id u,
                     s_title = c_title inp,
                     s_description = c_description inp,
                     s_meditationType = c_meditationType inp,
                     s_focusArea = c_focusArea inp,
                     s_difficulty = c_difficulty inp,
                     s_language = c_language inp,
                     s_targetDurationMinutes = c_targetDurationMinutes inp,
                     s_fullScript = c_fullScript inp,
                     s_notes = c_notes inp,
                     s_isFavorite = (case c_isFavorite inp of None \<Rightarrow> False | Some b \<Rightarrow> b),
                     s_createdAt = now,
                     s_updatedAt = now\<rparr>, []), st'))"
proof (intro conjI allI impI)
  assume "nid \<notin> set (map s_id (MeditationScripts st))"
  then show "fst (createMeditationScript inp ctx now nid st) = Inr nid"
    by (simp add: createMeditationScript_def createMeditationScript_handler_def schema auth
        insert_script_def)
next
  fix rid st'
  assume run: "createMeditationScript inp ctx now nid st = (Inr rid, st')"
  let ?row = "\<lparr>s_id = nid,
                    s_userId = user_id u,
                    s_title = c_title inp,
                    s_description = c_description inp,
                    s_meditationType = c_meditationType inp,
                    s_focusArea = c_focusArea inp,
                    s_difficulty = c_difficulty inp,
                    s_language = c_language inp,
                    s_targetDurationMinutes = c_targetDurationMinutes inp,
                    s_fullScript = c_fullScript inp,
                    s_notes = c_notes inp,
                    s_isFavorite = (case c_isFavorite inp of None \<Rightarrow> False | Some b \<Rightarrow> b),
                    s_createdAt = now,
                    s_updatedAt = now\<rparr>"
  from createMeditationScript_cases [OF run] auth
  have rid: "rid = nid" and fresh: "nid \<notin> set (map s_id (MeditationScripts st))"
    and st': "st' = st\<lparr>MeditationScripts := MeditationScripts st @ [?row]\<rparr>"
    by auto
  from fresh have old: "filter (\<lambda>r. s_id r = nid \<and> s_userId r = user_id u)
                          (MeditationScripts st) = []"
    by (auto simp: filter_empty_conv)
  from schema small have "row_decodes ?row"
    by (auto simp: row_decodes_def safe_integer_def create_schema_def positive_opt_def
        split: option.splits)
  then have got: "getOwnedScript nid (user_id u) st' = Inr ?row"
    by (simp add: getOwnedScript_def st' old)
  from refs fresh have none: "filter (\<lambda>r. x_scriptId r = nid) (MeditationScriptSections st') = []"
    by (auto simp: references_hold_def list_all_iff filter_empty_conv st')
  show "getMeditationScriptWithSections rid ctx st' =
              (Inr (\<lparr>s_id = rid,
                     s_userId = user_id u,
                     s_title = c_title inp,
                     s_description = c_description inp,
                     s_meditationType = c_meditationType inp,
                     s_focusArea = c_focusArea inp,
                     s_difficulty = c_difficulty inp,
                     s_language = c_language inp,
                     s_targetDurationMinutes = c_targetDurationMinutes inp,
                     s_fullScript = c_fullScript inp,
                     s_notes = c_notes inp,
                     s_isFavorite = (case c_isFavorite inp of None \<Rightarrow> False | Some b \<Rightarrow> b),
                     s_createdAt = now,
                     s_updatedAt = now\<rparr>, []), st')"
    unfolding rid
    by (simp add: getMeditationScriptWithSections_owned [OF auth got] none)
qed

theorem created_script_reads_back_witness:
  "references_hold store_full \<and>
   requireUser (signed_in ''alice'') = Inr \<lparr>user_id = ''alice''\<rparr> \<and>
   create_schema
     \<lparr>c_title = ''Evening'', c_description = None, c_meditationType = None,
      c_focusArea = Some ''sleep'', c_difficulty = None, c_language = None,
      c_targetDurationMinutes = Some 10, c_fullScript = None, c_notes = None,
      c_isFavorite = None\<rparr> \<and>
   (10::int) < 9007199254740992 \<and>
   fst (createMeditationScript
     \<lparr>c_title = ''Evening'', c_description = None, c_meditationType = None,
      c_focusArea = Some ''sleep'', c_difficulty = None, c_language = None,
      c_targetDurationMinutes = Some 10, c_fullScript = None, c_notes = None,
      c_isFavorite = None\<rparr> (signed_in ''alice'') 900 ''S4'' store_full) = Inr ''S4'' \<and>
   fst (getMeditationScriptWithSections ''S4'' (signed_in ''alice'')
     (snd (createMeditationScript
       \<lparr>c_title = ''Evening'', c_description = None, c_meditationType = None,
        c_focusArea = Some ''sleep'', c_difficulty = None, c_language = None,
        c_targetDurationMinutes = Some 10, c_fullScript = None, c_notes = None,
        c_isFavorite = None\<rparr> (signed_in ''alice'') 900 ''S4'' store_full))) =
     Inr (\<lparr>s_id = ''S4'', s_userId = ''alice'', s_title = ''Evening'',
           s_description = None, s_meditationType = None, s_focusArea = Some ''sleep'',
           s_difficulty = None, s_language = None, s_targetDurationMinutes = Some 10,
           s_fullScript = None, s_notes = None, s_isFavorite = False,
           s_createdAt = 900, s_updatedAt = 900\<rparr>, [])"
proof -
  let ?inp = "\<lparr>c_title = ''Evening'', c_description = None, c_meditationType = None,
      c_focusArea = Some ''sleep'', c_difficulty = None, c_language = None,
      c_targetDurationMinutes = Some 10, c_fullScript = None, c_notes = None,
      c_isFavorite = None\<rparr>"
  have refs: "references_hold store_full"
    by (simp add: references_hold_def example_defs)
  have auth: "requireUser (signed_in ''alice'') = Inr \<lparr>user_id = ''alice''\<rparr>"
    by (rule requireUser_signed_in)
  have schema: "create_schema ?inp"
    by (simp add: create_schema_def positive_opt_def)
  have fresh: "''S4'' \<notin> set (map s_id (MeditationScripts store_full))"
    by (simp add: example_defs)
  have small: "\<forall>n. c_targetDurationMinutes ?inp = Some n \<longrightarrow> n < 9007199254740992"
    by simp
  note inst = created_script_reads_back [OF refs auth schema small, of "''S4''" 900]
  from inst fresh
  have made: "fst (createMeditationScript ?inp (signed_in ''alice'') 900 ''S4'' store_full) =
                Inr ''S4''"
    by blast
  then have run: "createMeditationScript ?inp (signed_in ''alice'') 900 ''S4'' store_full =
      (Inr ''S4'', snd (createMeditationScript ?inp (signed_in ''alice'') 900 ''S4'' store_full))"
    by (metis prod.collapse)
  from inst run
  have "getMeditationScriptWithSections ''S4'' (signed_in ''alice'')
          (snd (createMeditationScript ?inp (signed_in ''alice'') 900 ''S4'' store_full)) =
        (Inr (\<lparr>s_id = ''S4'', s_userId = user_id \<lparr>user_id = ''alice''\<rparr>,
                s_title = c_title ?inp,
                s_description = c_description ?inp,
                s_meditationType = c_meditationType ?inp,
                s_focusArea = c_focusArea ?inp,
                s_difficulty = c_difficulty ?inp,
                s_language = c_language ?inp,
                s_targetDurationMinutes = c_targetDurationMinutes ?inp,
                s_fullScript = c_fullScript ?inp,
                s_notes = c_notes ?inp,
                s_isFavorite = (case c_isFavorite ?inp of None \<Rightarrow> False | Some b \<Rightarrow> b),
                s_createdAt = 900,
                s_updatedAt = 900\<rparr>, []),
         snd (createMeditationScript ?inp (signed_in ''alice'') 900 ''S4'' store_full))"
    by blast
  then have reads: "fst (getMeditationScriptWithSections ''S4'' (signed_in ''alice'')
          (snd (createMeditationScript ?inp (signed_in ''alice'') 900 ''S4'' store_full))) =
     Inr (\<lparr>s_id = ''S4'', s_userId = ''alice'', s_title = ''Evening'',
           s_description = None, s_meditationType = None, s_focusArea = Some ''sleep'',
           s_difficulty = None, s_language = None, s_targetDurationMinutes = Some 10,
           s_fullScript = None, s_notes = None, s_isFavorite = False,
           s_createdAt = 900, s_updatedAt = 900\<rparr>, [])"
    by simp
  from refs auth schema made reads show ?thesis by simp
qed

section \<open>What an upsert tells about other users' sections\<close>









end
